theory Spec2Isabelle
  imports Complex_Main "HOL-Library.Word" "HOL-Library.Log_Nat" "HOL-Library.Multiset"
begin

section \<open>The MetadataStorage contract\<close>

text \<open>
  The Solidity contract \<open>MetadataStorage\<close> (pragma \<open>^0.8.19\<close>). A \<open>uint256\<close> is a
  256-bit word, an \<open>address\<close> a 160-bit word, a Solidity \<open>mapping\<close> a total function
  (a key never written reads as the default value). Arithmetic is checked from
  Solidity 0.8 on: an increment that would overflow panics with code 0x11 and the
  call is reverted.
\<close>

type_synonym uint256 = "256 word"
type_synonym address = "160 word"

record Metadata =
  title :: string
  description :: string
  owner :: address
  timestamp :: uint256
  tags :: "string list"
  fileHash :: string
  customFields :: "string \<Rightarrow> string"

record MetadataStorage =
  metadataStore :: "uint256 \<Rightarrow> Metadata"
  metadataCount :: uint256

datatype event =
    MetadataCreated uint256 string address string
  | MetadataUpdated uint256 string address
  | CustomFieldAdded uint256 string string
  | FileHashUpdated uint256 string

text \<open>
  A failed \<open>require\<close> reverts with its message; a checked-arithmetic failure panics
  with a code. The specification's names for the two \<open>require\<close> failures are
  \<open>NotFound\<close> and \<open>Unauthorized\<close>.
\<close>

datatype error = Revert string | Panic nat

abbreviation NotFound :: error where
  "NotFound \<equiv> Revert ''Metadata does not exist''"

abbreviation Unauthorized :: error where
  "Unauthorized \<equiv> Revert ''Not the owner''"

text \<open>What a call sees of its transaction: \<open>msg.sender\<close> and \<open>block.timestamp\<close>.\<close>

record msg_env =
  sender :: address
  block_timestamp :: uint256

text \<open>
  A state-changing function returns its outcome (the error, or the returned value
  with the emitted event) and the contract state as the function body leaves it.
\<close>

type_synonym 'a tx_result = "(error + 'a \<times> event) \<times> MetadataStorage"

definition emptyMetadata :: Metadata where
  "emptyMetadata =
     \<lparr>title = [], description = [], owner = 0, timestamp = 0, tags = [],
      fileHash = [], customFields = (\<lambda>_. [])\<rparr>"

definition initialStorage :: MetadataStorage where
  "initialStorage = \<lparr>metadataStore = (\<lambda>_. emptyMetadata), metadataCount = 0\<rparr>"

definition createMetadata ::
  "msg_env \<Rightarrow> string \<Rightarrow> string \<Rightarrow> string list \<Rightarrow> string \<Rightarrow> MetadataStorage
     \<Rightarrow> uint256 tx_result" where
  "createMetadata env t d tg h s =
     (if metadataCount s = - 1 then (Inl (Panic 17), s)
      else
        let metadataId = metadataCount s;
            s1 = s\<lparr>metadataCount := metadataCount s + 1\<rparr>;
            newMetadata = (metadataStore s1 metadataId)
              \<lparr>title := t, description := d, owner := sender env,
               timestamp := block_timestamp env, tags := tg, fileHash := h\<rparr>;
            s2 = s1\<lparr>metadataStore := (metadataStore s1)(metadataId := newMetadata)\<rparr>
        in (Inr (metadataId, MetadataCreated metadataId t (sender env) h), s2))"

definition updateFileHash ::
  "msg_env \<Rightarrow> uint256 \<Rightarrow> string \<Rightarrow> MetadataStorage \<Rightarrow> unit tx_result" where
  "updateFileHash env i h s =
     (if \<not> i < metadataCount s then (Inl NotFound, s)
      else if sender env \<noteq> owner (metadataStore s i) then (Inl Unauthorized, s)
      else
        (Inr ((), FileHashUpdated i h),
         s\<lparr>metadataStore := (metadataStore s)(i := (metadataStore s i)\<lparr>fileHash := h\<rparr>)\<rparr>))"

definition addCustomField ::
  "msg_env \<Rightarrow> uint256 \<Rightarrow> string \<Rightarrow> string \<Rightarrow> MetadataStorage \<Rightarrow> unit tx_result" where
  "addCustomField env i k v s =
     (if \<not> i < metadataCount s then (Inl NotFound, s)
      else if sender env \<noteq> owner (metadataStore s i) then (Inl Unauthorized, s)
      else
        (Inr ((), CustomFieldAdded i k v),
         s\<lparr>metadataStore := (metadataStore s)
              (i := (metadataStore s i)
                 \<lparr>customFields := (customFields (metadataStore s i))(k := v)\<rparr>)\<rparr>))"

text \<open>The three \<open>view\<close> functions read the state and cannot change it.\<close>

definition getMetadata ::
  "uint256 \<Rightarrow> MetadataStorage
     \<Rightarrow> error + (string \<times> string \<times> address \<times> uint256 \<times> string list \<times> string)" where
  "getMetadata i s =
     (if \<not> i < metadataCount s then Inl NotFound
      else
        let metadata = metadataStore s i
        in Inr (title metadata, description metadata, owner metadata,
                timestamp metadata, tags metadata, fileHash metadata))"

definition getCustomField :: "uint256 \<Rightarrow> string \<Rightarrow> MetadataStorage \<Rightarrow> error + string" where
  "getCustomField i k s =
     (if \<not> i < metadataCount s then Inl NotFound
      else Inr (customFields (metadataStore s i) k))"

definition getMetadataCount :: "MetadataStorage \<Rightarrow> uint256" where
  "getMetadataCount s = metadataCount s"

text \<open>
  The contract's external interface: one constructor per public function, and the
  state a call by \<open>env\<close> leaves behind.
\<close>

datatype call =
    CreateMetadata string string "string list" string
  | UpdateFileHash uint256 string
  | AddCustomField uint256 string string
  | GetMetadata uint256
  | GetCustomField uint256 string
  | GetMetadataCount

fun exec :: "msg_env \<Rightarrow> call \<Rightarrow> MetadataStorage \<Rightarrow> MetadataStorage" where
  "exec env (CreateMetadata t d tg h) s = snd (createMetadata env t d tg h s)"
| "exec env (UpdateFileHash i h) s = snd (updateFileHash env i h s)"
| "exec env (AddCustomField i k v) s = snd (addCustomField env i k v s)"
| "exec env (GetMetadata i) s = s"
| "exec env (GetCustomField i k) s = s"
| "exec env GetMetadataCount s = s"

text \<open>
  A sequence of \<open>createMetadata\<close> transactions, each with its own sender, block time
  and arguments: the outcomes in order, and the final state.
\<close>

record create_args =
  ca_env :: msg_env
  ca_title :: string
  ca_description :: string
  ca_tags :: "string list"
  ca_fileHash :: string

fun createAll ::
  "create_args list \<Rightarrow> MetadataStorage \<Rightarrow> (error + uint256) list \<times> MetadataStorage" where
  "createAll [] s = ([], s)"
| "createAll (c # cs) s =
     (case createMetadata (ca_env c) (ca_title c) (ca_description c) (ca_tags c)
             (ca_fileHash c) s of
        (r, s') \<Rightarrow>
          (case createAll cs s' of
             (rs, s'') \<Rightarrow> (map_sum id fst r # rs, s'')))"

text \<open>The ids returned by the creates that succeeded, in call order.\<close>

fun returned_ids :: "(error + uint256) list \<Rightarrow> uint256 list" where
  "returned_ids [] = []"
| "returned_ids (Inl e # rs) = returned_ids rs"
| "returned_ids (Inr i # rs) = i # returned_ids rs"

text \<open>
  Two concrete states used to run the results below: the state after one create by
  account 7 at block time 100, and a state whose counter has reached the largest
  \<open>uint256\<close>.
\<close>

definition aliceEnv :: msg_env where
  "aliceEnv = \<lparr>sender = 7, block_timestamp = 100\<rparr>"

definition bobEnv :: msg_env where
  "bobEnv = \<lparr>sender = 9, block_timestamp = 101\<rparr>"

definition oneRecordStorage :: MetadataStorage where
  "oneRecordStorage = snd (createMetadata aliceEnv ''a'' ''x'' [''t''] ''h1'' initialStorage)"

definition fullStorage :: MetadataStorage where
  "fullStorage = initialStorage\<lparr>metadataCount := - 1\<rparr>"

section \<open>The dashboard script\<close>

subsection \<open>JavaScript values\<close>

text \<open>
  A JavaScript number is a binary64 float. Its finite values are rationals; \<open>NaN\<close>
  is apart. Infinities do not arise in what is modelled (the script divides only by a
  positive \<open>total_rounds\<close>), and the sign of zero is not kept: \<open>-0\<close> prints as
  \<open>0\<close> and compares like \<open>0\<close>.
\<close>

datatype number = NaN | Num rat

text \<open>
  Rounding a rational to the nearest binary64 value, ties to even: 53 significant
  bits, the exponent taken from the argument. The exponent range is not bounded, so
  the model is exact for results in the normal range of binary64, which is where the
  quotients and products of integers below \<open>2^53\<close> that the script computes lie.
\<close>

definition pow2 :: "int \<Rightarrow> rat" where
  "pow2 e = (if 0 \<le> e then 2 ^ nat e else 1 / 2 ^ nat (- e))"

definition ilog2 :: "rat \<Rightarrow> int" where
  "ilog2 x = (if 1 \<le> x then bitlen \<lfloor>x\<rfloor> - 1 else - bitlen (\<lceil>1 / x\<rceil> - 1))"

definition round_even :: "rat \<Rightarrow> int" where
  "round_even x =
     (let f = \<lfloor>x\<rfloor>; d = x - of_int f
      in if d < 1 / 2 then f else if 1 / 2 < d then f + 1 else if even f then f else f + 1)"

definition fl :: "rat \<Rightarrow> rat" where
  "fl x = (if x = 0 then 0
           else let e = ilog2 \<bar>x\<bar> - 52 in of_int (round_even (x / pow2 e)) * pow2 e)"

text \<open>
  A field of a parsed JSON object that is expected to hold an integer: absent
  (\<open>undefined\<close>), \<open>null\<close>, or an integer (taken below \<open>2^53\<close> in magnitude,
  where a JavaScript number holds it exactly and prints it in plain decimal).
\<close>

datatype jsval = Undefined | Null | Number int

definition truthy :: "jsval \<Rightarrow> bool" where
  "truthy v = (case v of Number n \<Rightarrow> n \<noteq> 0 | _ \<Rightarrow> False)"

definition to_number :: "jsval \<Rightarrow> number" where
  "to_number v = (case v of Undefined \<Rightarrow> NaN | Null \<Rightarrow> Num 0 | Number n \<Rightarrow> Num (of_int n))"

text \<open>The relational test \<open>v > 0\<close>: false for \<open>undefined\<close> (NaN) and \<open>null\<close> (0).\<close>

definition gt_zero :: "jsval \<Rightarrow> bool" where
  "gt_zero v = (case to_number v of NaN \<Rightarrow> False | Num x \<Rightarrow> 0 < x)"

fun show_nat :: "nat \<Rightarrow> string" where
  "show_nat n =
     (if n < 10 then [''0123456789'' ! n]
      else show_nat (n div 10) @ [''0123456789'' ! (n mod 10)])"

definition show_int :: "int \<Rightarrow> string" where
  "show_int i = (if i < 0 then CHR ''-'' # show_nat (nat (- i)) else show_nat (nat i))"

text \<open>What a template literal \<open>${v}\<close> inserts.\<close>

definition to_string :: "jsval \<Rightarrow> string" where
  "to_string v =
     (case v of Undefined \<Rightarrow> ''undefined'' | Null \<Rightarrow> ''null'' | Number n \<Rightarrow> show_int n)"

text \<open>
  The outcome of \<open>fetch(url)\<close> followed by the \<open>ok\<close> test and \<open>json()\<close>: the request
  is rejected with an error message, or answered with a status outside 200..299
  (status and status text), or answered with a body that \<open>json()\<close> rejects, or
  answered with a parsed value.
\<close>

datatype 'a response = FetchRejected string | NotOk nat string | BadJson string | Json 'a

subsection \<open>The Flower status panel\<close>

text \<open>
  The object served by \<open>/api/flower/status\<close>. The four flags are read only for their
  truthiness, which is what the record holds.
\<close>

record flower_status =
  st_connected :: bool
  st_server_running :: bool
  st_training_in_progress :: bool
  st_flower_accessible :: bool
  st_clients_connected :: jsval
  st_current_round :: jsval
  st_total_rounds :: jsval

text \<open>
  What \<open>updateFlowerStatus\<close> writes into the page: the text and the three colour
  names substituted into the status indicator's markup and class, the three words of
  the details line, the three text contents, and the progress bar's width, text and
  class.
\<close>

record flower_panel =
  fp_statusText :: string
  fp_statusColor :: string
  fp_statusBgColor :: string
  fp_statusTextColor :: string
  fp_statusDetails :: "string \<times> string \<times> string"
  fp_connectedClients :: string
  fp_currentRound :: string
  fp_totalRounds :: string
  fp_progressWidth :: string
  fp_progressText :: string
  fp_progressClass :: string

definition status_label :: "flower_status \<Rightarrow> string \<times> string \<times> string \<times> string" where
  "status_label status =
     (if st_connected status then
        (''Connected ('' @ to_string (st_clients_connected status) @ '' client''
           @ (if st_clients_connected status \<noteq> Number 1 then ''s'' else '''') @ '')'',
         ''green'', ''green-100'', ''green-800'')
      else if st_server_running status then
        (''Server running but not accessible'', ''yellow'', ''yellow-100'', ''yellow-800'')
      else if st_training_in_progress status then
        (''Starting up...'', ''blue'', ''blue-100'', ''blue-800'')
      else (''Disconnected'', ''red'', ''red-100'', ''red-800''))"

text \<open>
  \<open>Math.min(100, Math.round((current_round / total_rounds) * 100))\<close>, which the
  script evaluates only where \<open>total_rounds > 0\<close> holds: the quotient and the product
  are each rounded to binary64, \<open>Math.round\<close> takes the nearest integer with ties
  upwards, and \<open>NaN\<close> (here \<open>None\<close>) passes through.
\<close>

definition progress_percent :: "jsval \<Rightarrow> jsval \<Rightarrow> int option" where
  "progress_percent cur tot =
     (case (to_number cur, to_number tot) of
        (Num c, Num t) \<Rightarrow> Some (min 100 (round (fl (fl (c / t) * 100))))
      | _ \<Rightarrow> None)"

definition percent_text :: "int option \<Rightarrow> string" where
  "percent_text progress =
     (case progress of None \<Rightarrow> ''NaN'' | Some n \<Rightarrow> show_int n) @ ''%''"

text \<open>
  The assignment \<open>progressBar.style.width = `${progress}%`\<close>: the style setter drops
  a value that is not a valid width (a negative percentage, \<open>NaN%\<close>) and the bar
  keeps the width it had.
\<close>

definition style_width :: "int option \<Rightarrow> string \<Rightarrow> string" where
  "style_width progress width =
     (case progress of
        None \<Rightarrow> width
      | Some n \<Rightarrow> if 0 \<le> n then percent_text progress else width)"

definition progress_class :: "int option \<Rightarrow> string" where
  "progress_class progress =
     (case progress of
        None \<Rightarrow> ''bg-red-500 h-2.5 rounded-full''
      | Some n \<Rightarrow>
          if 100 \<le> n then ''bg-green-600 h-2.5 rounded-full''
          else if 70 < n then ''bg-blue-600 h-2.5 rounded-full''
          else if 30 < n then ''bg-yellow-500 h-2.5 rounded-full''
          else ''bg-red-500 h-2.5 rounded-full'')"

definition renderFlowerStatus :: "flower_status \<Rightarrow> flower_panel \<Rightarrow> flower_panel" where
  "renderFlowerStatus status panel =
     (case status_label status of
        (statusText, statusColor, statusBgColor, statusTextColor) \<Rightarrow>
          let panel1 = panel
                \<lparr>fp_statusText := statusText, fp_statusColor := statusColor,
                 fp_statusBgColor := statusBgColor, fp_statusTextColor := statusTextColor,
                 fp_statusDetails :=
                   (if st_server_running status then ''Running'' else ''Stopped'',
                    if st_flower_accessible status then ''Accessible'' else ''Inaccessible'',
                    if st_training_in_progress status then ''In Progress'' else ''Idle''),
                 fp_connectedClients :=
                   (if truthy (st_clients_connected status)
                    then to_string (st_clients_connected status) else ''0''),
                 fp_currentRound :=
                   (if truthy (st_current_round status)
                    then to_string (st_current_round status) else ''-''),
                 fp_totalRounds :=
                   (if truthy (st_total_rounds status)
                    then to_string (st_total_rounds status) else ''-'')\<rparr>
          in if gt_zero (st_total_rounds status) then
               let progress =
                     progress_percent (st_current_round status) (st_total_rounds status)
               in panel1
                    \<lparr>fp_progressWidth := style_width progress (fp_progressWidth panel1),
                     fp_progressText := percent_text progress,
                     fp_progressClass := progress_class progress\<rparr>
             else panel1\<lparr>fp_progressWidth := ''0%'', fp_progressText := ''0%''\<rparr>)"

text \<open>The \<open>catch\<close> branch of \<open>updateFlowerStatus\<close>: only the status indicator changes.\<close>

definition flowerStatusError :: "string \<Rightarrow> flower_panel \<Rightarrow> flower_panel" where
  "flowerStatusError message panel =
     panel\<lparr>fp_statusText := ''Error: '' @ message, fp_statusColor := ''red'',
           fp_statusBgColor := ''red-100'', fp_statusTextColor := ''red-800''\<rparr>"

definition updateFlowerStatus :: "flower_status response \<Rightarrow> flower_panel \<Rightarrow> flower_panel" where
  "updateFlowerStatus r panel =
     (case r of
        FetchRejected message \<Rightarrow> flowerStatusError message panel
      | NotOk st txt \<Rightarrow> flowerStatusError ''Failed to fetch Flower status'' panel
      | BadJson message \<Rightarrow> flowerStatusError message panel
      | Json status \<Rightarrow> renderFlowerStatus status panel)"

text \<open>
  The specification's formula for the percentage, in exact arithmetic:
  \<open>round(100 \<times> current_round / total_rounds)\<close> clamped to \<open>[0, 100]\<close>.
\<close>

definition spec_progress :: "int \<Rightarrow> int \<Rightarrow> int" where
  "spec_progress cur tot =
     max 0 (min 100 (round (100 * rat_of_int cur / rat_of_int tot)))"

text \<open>The specification's label for a connected server: \<open>Connected (N clients)\<close>.\<close>

definition spec_connected_label :: "int \<Rightarrow> string" where
  "spec_connected_label n = ''Connected ('' @ show_int n @ '' clients)''"

subsection \<open>The ledger and audit-log tables\<close>

text \<open>
  An entry of \<open>/api/ledger\<close> and a block of \<open>/api/blockchain\<close>. A timestamp is
  held as the time value of \<open>new Date(timestamp)\<close>, in milliseconds, or \<open>None\<close> for
  an invalid date (time value NaN); an absent field is \<open>None\<close>.
\<close>

record ledger_entry =
  le_round_num :: int
  le_timestamp :: "int option"
  le_clients :: "string list"
  le_accuracy :: "rat option"
  le_loss :: "rat option"

record audit_block =
  ab_round_num :: "int option"
  ab_timestamp :: "int option"
  ab_data_hash :: "string option"
  ab_previous_hash :: "string option"

text \<open>
  The comparator \<open>(a, b) => new Date(b.timestamp) - new Date(a.timestamp)\<close>, given
  the two time values: NaN (\<open>None\<close>) as soon as one date is invalid.
\<close>

definition newest_first :: "int option \<Rightarrow> int option \<Rightarrow> int option" where
  "newest_first ta tb =
     (case (tb, ta) of (Some y, Some x) \<Rightarrow> Some (y - x) | _ \<Rightarrow> None)"

text \<open>
  \<open>Array.prototype.sort\<close> with a comparator is a stable comparison sort; which
  algorithm runs is left to the engine, and for a comparator that orders the elements
  consistently every conforming algorithm returns the same array. The model follows
  V8 (Chrome, Node.js), whose result is also fixed where the comparator is not
  consistent. The engine calls the comparator through \<open>CallCompare\<close>, which
  turns a NaN result into \<open>+0\<close>.
\<close>

definition call_compare :: "('a \<Rightarrow> 'a \<Rightarrow> int option) \<Rightarrow> 'a \<Rightarrow> 'a \<Rightarrow> int" where
  "call_compare cmp x y = (case cmp x y of None \<Rightarrow> 0 | Some d \<Rightarrow> d)"

text \<open>
  An array of fewer than 64 elements is sorted as a single run. \<open>CountAndMakeRun\<close>
  takes the longest prefix that is strictly descending (each element compares below
  its predecessor), which it reverses, or else non-descending; \<open>take_run\<close> extends
  the run over the elements behind the second one and returns what it leaves.
\<close>

fun take_run ::
  "('a \<Rightarrow> 'a \<Rightarrow> int option) \<Rightarrow> bool \<Rightarrow> 'a \<Rightarrow> 'a list \<Rightarrow> 'a list \<times> 'a list" where
  "take_run cmp isDescending previousElement [] = ([], [])"
| "take_run cmp isDescending previousElement (currentElement # rest) =
     (if (if isDescending then 0 \<le> call_compare cmp currentElement previousElement
          else call_compare cmp currentElement previousElement < 0)
      then ([], currentElement # rest)
      else
        (case take_run cmp isDescending currentElement rest of
           (run, remaining) \<Rightarrow> (currentElement # run, remaining)))"

fun count_and_make_run ::
  "('a \<Rightarrow> 'a \<Rightarrow> int option) \<Rightarrow> 'a list \<Rightarrow> 'a list \<times> 'a list" where
  "count_and_make_run cmp [] = ([], [])"
| "count_and_make_run cmp [x] = ([x], [])"
| "count_and_make_run cmp (elementHigh # elementLow # rest) =
     (let isDescending = call_compare cmp elementLow elementHigh < 0
      in case take_run cmp isDescending elementLow rest of
           (run, remaining) \<Rightarrow>
             (if isDescending then rev (elementHigh # elementLow # run)
              else elementHigh # elementLow # run,
              remaining))"

text \<open>
  \<open>BinaryInsertionSort\<close> then inserts the remaining elements one by one: a binary
  search over the sorted part finds the place of the pivot, going left where the
  pivot compares below the middle element and right otherwise.
\<close>

function binary_search ::
  "('a \<Rightarrow> 'a \<Rightarrow> int option) \<Rightarrow> 'a \<Rightarrow> 'a list \<Rightarrow> nat \<Rightarrow> nat \<Rightarrow> nat" where
  "binary_search cmp pivot workArray left right =
     (if left < right then
        let mid = left + (right - left) div 2
        in if call_compare cmp pivot (workArray ! mid) < 0
           then binary_search cmp pivot workArray left mid
           else binary_search cmp pivot workArray (mid + 1) right
      else left)"
  by pat_completeness auto
termination
  by (relation "measure (\<lambda>(cmp, pivot, workArray, left, right). right - left)") auto

declare binary_search.simps [simp del]

fun binary_insertion_sort ::
  "('a \<Rightarrow> 'a \<Rightarrow> int option) \<Rightarrow> 'a list \<Rightarrow> 'a list \<Rightarrow> 'a list" where
  "binary_insertion_sort cmp workArray [] = workArray"
| "binary_insertion_sort cmp workArray (pivot # rest) =
     (let left = binary_search cmp pivot workArray 0 (length workArray)
      in binary_insertion_sort cmp (take left workArray @ pivot # drop left workArray) rest)"

text \<open>
  Arrays of 64 elements and more are cut into several runs that are merged. That
  part is not followed step by step: a stable insertion sort stands for it, which is
  the engine's result whenever the comparator orders the elements consistently.
\<close>

fun insert_by :: "('a \<Rightarrow> 'a \<Rightarrow> int option) \<Rightarrow> 'a \<Rightarrow> 'a list \<Rightarrow> 'a list" where
  "insert_by cmp x [] = [x]"
| "insert_by cmp x (y # ys) =
     (if 0 < call_compare cmp x y then y # insert_by cmp x ys else x # y # ys)"

definition array_sort :: "('a \<Rightarrow> 'a \<Rightarrow> int option) \<Rightarrow> 'a list \<Rightarrow> 'a list" where
  "array_sort cmp xs =
     (if length xs < 64 then
        (case count_and_make_run cmp xs of
           (run, remaining) \<Rightarrow> binary_insertion_sort cmp run remaining)
      else foldr (insert_by cmp) xs [])"

text \<open>
  The body of a table: the one-cell placeholder row with its message, or one row per
  element. A ledger row is a function of its entry (and, for the relative time, of
  the clock), so the row is held as the entry.
\<close>

datatype 'row table = NoData string | Rows "'row list"

definition updateLedgerTable :: "ledger_entry list \<Rightarrow> ledger_entry table" where
  "updateLedgerTable ledgerData =
     (if ledgerData = [] then NoData ''No training data available''
      else Rows (array_sort (\<lambda>a b. newest_first (le_timestamp a) (le_timestamp b)) ledgerData))"

text \<open>
  A row of the audit-log table: the round cell, the block's time value (which
  \<open>formatTimestamp\<close> renders from the clock and locale), and the \<open>title\<close> attribute
  and text of the two hash cells.
\<close>

record block_row =
  br_round :: string
  br_timestamp :: "int option"
  br_hash_title :: string
  br_hash_text :: string
  br_prev_title :: string
  br_prev_text :: string

definition genesis_hash :: string where
  "genesis_hash = ''0000000000000000000000000000000000000000000000000000000000000000''"

definition block_row :: "audit_block \<Rightarrow> block_row" where
  "block_row block =
     \<lparr>br_round = (case ab_round_num block of None \<Rightarrow> ''N/A'' | Some n \<Rightarrow> show_int n),
      br_timestamp = ab_timestamp block,
      br_hash_title = (case ab_data_hash block of None \<Rightarrow> [] | Some h \<Rightarrow> h),
      br_hash_text =
        (case ab_data_hash block of
           None \<Rightarrow> ''N/A''
         | Some h \<Rightarrow> if h \<noteq> [] then take 16 h @ ''...'' else ''N/A''),
      br_prev_title = (case ab_previous_hash block of None \<Rightarrow> [] | Some h \<Rightarrow> h),
      br_prev_text =
        (case ab_previous_hash block of
           None \<Rightarrow> ''N/A''
         | Some h \<Rightarrow>
             if h \<noteq> [] then (if h = genesis_hash then ''Genesis'' else take 16 h @ ''...'')
             else ''N/A'')\<rparr>"

definition updateBlockchainTable :: "audit_block list \<Rightarrow> block_row table" where
  "updateBlockchainTable blockchainData =
     (if blockchainData = [] then NoData ''No blockchain data available''
      else Rows (map block_row
             (array_sort (\<lambda>a b. newest_first (ab_timestamp a) (ab_timestamp b)) blockchainData)))"

subsection \<open>The poll cycle\<close>

text \<open>The two charts: labels and data of the accuracy chart and of the loss chart.\<close>

record charts =
  ch_accuracy_labels :: "string list"
  ch_accuracy_data :: "rat list"
  ch_loss_labels :: "string list"
  ch_loss_data :: "rat list"

definition updateCharts :: "ledger_entry list \<Rightarrow> charts \<Rightarrow> charts" where
  "updateCharts ledgerData c =
     (if ledgerData = [] then c
      else
        let labels = map (\<lambda>index. ''Round '' @ show_nat (index + 1)) [0 ..< length ledgerData]
        in \<lparr>ch_accuracy_labels = labels,
            ch_accuracy_data =
              map (\<lambda>entry. case le_accuracy entry of None \<Rightarrow> 0 | Some a \<Rightarrow> a) ledgerData,
            ch_loss_labels = labels,
            ch_loss_data =
              map (\<lambda>entry. case le_loss entry of None \<Rightarrow> 0 | Some l \<Rightarrow> l) ledgerData\<rparr>)"

text \<open>
  The part of the page the script writes: the loading indicators, the error banner
  (its text, and whether it carries the class \<open>hidden\<close>), the charts, the two table
  bodies, the training controls (start button disabled, stop button disabled and
  hidden, class list and text of the status box, pending timers that will hide the
  status box), and the Flower panel. \<open>pg_requests\<close> logs the URLs fetched, in order.
  The elements the script looks up are taken to exist, except the two of the error
  banner, whose presence the script itself tests; the fetched arrays are taken to be
  well-formed, so that rendering them does not throw.
\<close>

record page =
  pg_loading :: bool
  pg_errorText :: string
  pg_errorHidden :: bool
  pg_charts :: charts
  pg_ledgerBody :: "ledger_entry table"
  pg_blockchainBody :: "block_row table"
  pg_startDisabled :: bool
  pg_stopDisabled :: bool
  pg_stopHidden :: bool
  pg_statusClasses :: "string set"
  pg_statusText :: string
  pg_hideTimers :: nat
  pg_flower :: flower_panel
  pg_requests :: "string list"

text \<open>
  What one poll cycle meets: the outcome of each of its four requests (of
  \<open>/api/status\<close> only the truthiness of \<open>training_in_progress\<close> is read), and whether
  the elements \<open>errorMessage\<close> and \<open>errorText\<close> exist.
\<close>

record poll_env =
  pe_flower :: "flower_status response"
  pe_ledger :: "ledger_entry list response"
  pe_blockchain :: "audit_block list response"
  pe_status :: "bool response"
  pe_errorDiv :: bool
  pe_errorText :: bool

definition setLoading :: "bool \<Rightarrow> page \<Rightarrow> page" where
  "setLoading isLoading p = p\<lparr>pg_loading := isLoading\<rparr>"

definition showError :: "poll_env \<Rightarrow> string \<Rightarrow> page \<Rightarrow> page" where
  "showError env message p =
     (if pe_errorDiv env \<and> pe_errorText env
      then p\<lparr>pg_errorText := message, pg_errorHidden := False\<rparr> else p)"

definition hideError :: "poll_env \<Rightarrow> page \<Rightarrow> page" where
  "hideError env p = (if pe_errorDiv env then p\<lparr>pg_errorHidden := True\<rparr> else p)"

definition resetTrainingUI :: "page \<Rightarrow> page" where
  "resetTrainingUI p =
     p\<lparr>pg_startDisabled := False, pg_stopDisabled := False, pg_stopHidden := True,
       pg_statusClasses :=
         (pg_statusClasses p - {''bg-blue-100'', ''text-blue-700''})
           \<union> {''bg-green-100'', ''text-green-700''},
       pg_statusText := ''Training completed successfully'',
       pg_hideTimers := Suc (pg_hideTimers p)\<rparr>"

definition fetch :: "string \<Rightarrow> page \<Rightarrow> page" where
  "fetch url p = p\<lparr>pg_requests := pg_requests p @ [url]\<rparr>"

text \<open>
  One of the two inner \<open>try\<close> blocks around a critical request: the parsed array, or
  the message of the error the block catches (for a status outside 200..299 the
  message the block itself throws, which starts with \<open>what\<close>).
\<close>

definition fetched :: "string \<Rightarrow> 'a response \<Rightarrow> string + 'a" where
  "fetched what r =
     (case r of
        FetchRejected message \<Rightarrow> Inl message
      | NotOk st txt \<Rightarrow> Inl (what @ show_nat st @ '' '' @ txt)
      | BadJson message \<Rightarrow> Inl message
      | Json v \<Rightarrow> Inr v)"

text \<open>The outer \<open>catch\<close>: the banner, and the tables for the arrays fetched so far.\<close>

definition onError ::
  "poll_env \<Rightarrow> string \<Rightarrow> ledger_entry list \<Rightarrow> audit_block list \<Rightarrow> page \<Rightarrow> page" where
  "onError env message ledgerData blockchainData p =
     (let p1 = setLoading False (showError env (''Error: '' @ message) p);
          p2 = (if ledgerData \<noteq> [] then p1\<lparr>pg_ledgerBody := updateLedgerTable ledgerData\<rparr>
                else p1)
      in if blockchainData \<noteq> []
         then p2\<lparr>pg_blockchainBody := updateBlockchainTable blockchainData\<rparr> else p2)"

text \<open>The non-critical \<open>/api/status\<close> step at the end of a successful cycle.\<close>

definition updateTrainingStatus :: "bool response \<Rightarrow> ledger_entry list \<Rightarrow> page \<Rightarrow> page" where
  "updateTrainingStatus r ledgerData p =
     (case r of
        Json training_in_progress \<Rightarrow>
          if training_in_progress then
            p\<lparr>pg_startDisabled := True, pg_stopHidden := False,
              pg_statusClasses := pg_statusClasses p - {''hidden''},
              pg_statusText :=
                ''Training in progress (Round ''
                  @ show_nat (if length ledgerData = 0 then 1 else length ledgerData) @ '')''\<rparr>
          else if 0 < length ledgerData then resetTrainingUI p
          else p
      | _ \<Rightarrow> p)"

text \<open>
  One poll cycle. \<open>updateFlowerStatus\<close> is started first and not awaited; it
  writes the Flower panel only, which nothing else in the cycle reads or writes, so
  it is run to its end on the spot. A failure of the ledger or of the audit-log
  request is rethrown by its inner \<open>catch\<close> and ends the \<open>try\<close> block.
\<close>

definition fetchAndUpdateData :: "poll_env \<Rightarrow> page \<Rightarrow> page" where
  "fetchAndUpdateData env p =
     (let p1 = hideError env (setLoading True p);
          p2 = (fetch ''/api/flower/status'' p1)
                 \<lparr>pg_flower := updateFlowerStatus (pe_flower env) (pg_flower p1)\<rparr>;
          p3 = fetch ''/api/ledger'' p2
      in case fetched ''Failed to fetch ledger: '' (pe_ledger env) of
           Inl message \<Rightarrow> onError env (''Failed to load training data: '' @ message) [] [] p3
         | Inr ledgerData \<Rightarrow>
             (let p4 = fetch ''/api/blockchain'' p3
              in (case fetched ''Failed to fetch blockchain data: '' (pe_blockchain env) of
                    Inl message \<Rightarrow>
                      onError env (''Failed to load blockchain data: '' @ message) ledgerData [] p4
                  | Inr blockchainData \<Rightarrow>
                      (let p5 = setLoading False
                            (p4\<lparr>pg_charts := updateCharts ledgerData (pg_charts p4),
                                pg_ledgerBody := updateLedgerTable ledgerData,
                                pg_blockchainBody := updateBlockchainTable blockchainData\<rparr>);
                           p6 = updateTrainingStatus (pe_status env) ledgerData
                                  (fetch ''/api/status'' p5)
                       in hideError env p6))))"


text \<open>
  Concrete inputs used to run the results below: a status panel and a page before
  the first poll, a status object, three ledger entries and three blocks stamped
  10:00, 10:05 and 10:02 (in milliseconds), the first block being the genesis block,
  an entry and a block without a timestamp, and a poll cycle in which \<open>/api/ledger\<close> answers 500 while \<open>/api/blockchain\<close> would
  answer with one block.
\<close>

definition examplePanel :: flower_panel where
  "examplePanel =
     \<lparr>fp_statusText = ''Checking...'', fp_statusColor = ''gray'', fp_statusBgColor = ''gray-100'',
      fp_statusTextColor = ''gray-800'', fp_statusDetails = ([], [], []),
      fp_connectedClients = ''0'', fp_currentRound = ''-'', fp_totalRounds = ''-'',
      fp_progressWidth = ''0%'', fp_progressText = ''0%'',
      fp_progressClass = ''bg-blue-600 h-2.5 rounded-full''\<rparr>"

definition exampleStatus :: flower_status where
  "exampleStatus =
     \<lparr>st_connected = True, st_server_running = True, st_training_in_progress = True,
      st_flower_accessible = True, st_clients_connected = Number 1,
      st_current_round = Number 3, st_total_rounds = Number 10\<rparr>"

definition entry1 :: ledger_entry where
  "entry1 = \<lparr>le_round_num = 1, le_timestamp = Some 36000000, le_clients = [''c1'', ''c2''],
              le_accuracy = Some (9 / 10), le_loss = Some (3 / 10)\<rparr>"

definition entry2 :: ledger_entry where
  "entry2 = \<lparr>le_round_num = 2, le_timestamp = Some 36300000, le_clients = [''c1'', ''c2''],
              le_accuracy = Some (19 / 20), le_loss = Some (1 / 5)\<rparr>"

definition entry3 :: ledger_entry where
  "entry3 = \<lparr>le_round_num = 3, le_timestamp = Some 36120000, le_clients = [''c1''],
              le_accuracy = None, le_loss = None\<rparr>"


definition block1 :: audit_block where
  "block1 = \<lparr>ab_round_num = Some 1, ab_timestamp = Some 36000000,
              ab_data_hash = Some ''9f86d081884c7d659a2feaa0c55ad015a3bf4f1b'',
              ab_previous_hash = Some genesis_hash\<rparr>"

definition block2 :: audit_block where
  "block2 = \<lparr>ab_round_num = Some 2, ab_timestamp = Some 36300000,
              ab_data_hash = Some ''60303ae22b998861bce3b28f33eec1be758a213c'',
              ab_previous_hash = Some ''9f86d081884c7d659a2feaa0c55ad015a3bf4f1b''\<rparr>"

definition block3 :: audit_block where
  "block3 = \<lparr>ab_round_num = Some 3, ab_timestamp = Some 36120000,
              ab_data_hash = Some ''fd61a03af4f77d870fc21e05e7e80678095c92d8'',
              ab_previous_hash = Some ''60303ae22b998861bce3b28f33eec1be758a213c''\<rparr>"


definition examplePage :: page where
  "examplePage =
     \<lparr>pg_loading = False, pg_errorText = [], pg_errorHidden = True,
      pg_charts = \<lparr>ch_accuracy_labels = [], ch_accuracy_data = [], ch_loss_labels = [],
                   ch_loss_data = []\<rparr>,
      pg_ledgerBody = NoData ''No training data available'',
      pg_blockchainBody = NoData ''No blockchain data available'',
      pg_startDisabled = False, pg_stopDisabled = False, pg_stopHidden = True,
      pg_statusClasses = {''hidden''}, pg_statusText = [], pg_hideTimers = 0,
      pg_flower = examplePanel, pg_requests = []\<rparr>"

definition ledgerDownEnv :: poll_env where
  "ledgerDownEnv =
     \<lparr>pe_flower = Json exampleStatus, pe_ledger = NotOk 500 ''Internal Server Error'',
      pe_blockchain = Json [block1], pe_status = Json False,
      pe_errorDiv = True, pe_errorText = True\<rparr>"

definition auditDownEnv :: poll_env where
  "auditDownEnv =
     \<lparr>pe_flower = Json exampleStatus, pe_ledger = Json [entry1, entry2, entry3],
      pe_blockchain = FetchRejected ''Failed to fetch'', pe_status = Json False,
      pe_errorDiv = True, pe_errorText = True\<rparr>"

section \<open>Results on the contract\<close>

lemma unat_succ: "(c::uint256) \<noteq> - 1 \<Longrightarrow> unat (c + 1) = Suc (unat c)"
  by (simp add: add.commute add_eq_0_iff unatSuc)

lemma createMetadata_count:
  "metadataCount (snd (createMetadata env t d tg h s)) =
     (if metadataCount s = - 1 then metadataCount s else metadataCount s + 1)"
  by (simp add: createMetadata_def Let_def)

lemma createMetadata_fst:
  "map_sum id fst (fst (createMetadata env t d tg h s)) =
     (if metadataCount s = - 1 then Inl (Panic 17) else Inr (metadataCount s))"
  by (simp add: createMetadata_def Let_def)

text \<open>
  From any state, the ids handed out by a run of creates are exactly the counter
  values between the counter before and the counter after the run.
\<close>

lemma createAll_ids:
  "createAll cs s = (rs, s') \<Longrightarrow>
     map unat (returned_ids rs) = [unat (metadataCount s) ..< unat (metadataCount s')]
     \<and> unat (metadataCount s) \<le> unat (metadataCount s')"
proof (induction cs arbitrary: s rs s')
  case Nil
  then show ?case by simp
next
  case (Cons c cs)
  obtain r s1 where step:
    "createMetadata (ca_env c) (ca_title c) (ca_description c) (ca_tags c) (ca_fileHash c) s
       = (r, s1)"
    by (cases "createMetadata (ca_env c) (ca_title c) (ca_description c) (ca_tags c)
                 (ca_fileHash c) s")
  obtain rs1 s2 where rest: "createAll cs s1 = (rs1, s2)"
    by (cases "createAll cs s1")
  from Cons.prems step rest have rs: "rs = map_sum id fst r # rs1" and s': "s' = s2"
    by simp_all
  note ih = Cons.IH [OF rest]
  have cnt: "metadataCount s1 =
      (if metadataCount s = - 1 then metadataCount s else metadataCount s + 1)"
    using createMetadata_count [of "ca_env c" "ca_title c" "ca_description c" "ca_tags c"
        "ca_fileHash c" s] step by simp
  have res: "map_sum id fst r =
      (if metadataCount s = - 1 then Inl (Panic 17) else Inr (metadataCount s))"
    using createMetadata_fst [of "ca_env c" "ca_title c" "ca_description c" "ca_tags c"
        "ca_fileHash c" s] step by simp
  show ?case
  proof (cases "metadataCount s = - 1")
    case True
    with cnt res rs s' ih show ?thesis by simp
  next
    case False
    then have "unat (metadataCount s1) = Suc (unat (metadataCount s))"
      using cnt by (simp add: unat_succ)
    with False res rs s' ih show ?thesis
      by (simp add: upt_conv_Cons)
  qed
qed

lemma returned_ids_length:
  "length (returned_ids rs) = length (filter (\<lambda>r. \<not> isl r) rs)"
  by (induction rs rule: returned_ids.induct) simp_all

lemma exec_count_mono: "metadataCount s \<le> metadataCount (exec env c s)"
proof (cases c)
  case (CreateMetadata t d tg h)
  then show ?thesis
    by (simp add: createMetadata_count word_le_nat_alt unat_succ)
qed (simp_all add: updateFileHash_def addCustomField_def)

text \<open>
  Claim C2. Run any sequence of \<open>createMetadata\<close> calls from the freshly deployed
  contract. Afterwards \<open>getMetadataCount()\<close> is the number of calls that succeeded
  (a call fails only when the counter would overflow); the ids returned are
  0, 1, 2, ... in call order, hence pairwise distinct and strictly increasing; and no
  call of any function of the contract, by any sender in any state, makes
  \<open>getMetadataCount()\<close> smaller.
\<close>

theorem createAll_count_and_ids:
  assumes "createAll cs initialStorage = (rs, s')"
  shows "unat (getMetadataCount s') = length (filter (\<lambda>r. \<not> isl r) rs)
    \<and> returned_ids rs = map word_of_nat [0 ..< length (returned_ids rs)]
    \<and> distinct (returned_ids rs)
    \<and> sorted_wrt (<) (returned_ids rs)
    \<and> getMetadataCount s \<le> getMetadataCount (exec env c s)"
proof -
  from createAll_ids [OF assms]
  have ids: "map unat (returned_ids rs) = [0 ..< unat (metadataCount s')]"
    by (simp add: initialStorage_def)
  then have len: "length (returned_ids rs) = unat (metadataCount s')"
    by (metis diff_zero length_map length_upt)
  have "map word_of_nat (map unat (returned_ids rs)) = (returned_ids rs :: uint256 list)"
    by (simp add: map_idI)
  with ids len have eq: "returned_ids rs = map word_of_nat [0 ..< length (returned_ids rs)]"
    by simp
  have "distinct (map unat (returned_ids rs))"
    using ids by simp
  then have dist: "distinct (returned_ids rs)"
    by (simp add: distinct_map)
  have "sorted_wrt (<) (map unat (returned_ids rs))"
    using ids by simp
  then have srt: "sorted_wrt (<) (returned_ids rs)"
    by (simp add: sorted_wrt_map word_less_nat_alt [abs_def])
  show ?thesis
    using len eq dist srt exec_count_mono [of s env c]
    by (simp add: getMetadataCount_def returned_ids_length)
qed

theorem createAll_count_and_ids_witness:
  "createAll
     [\<lparr>ca_env = aliceEnv, ca_title = ''a'', ca_description = ''x'', ca_tags = [''t''],
       ca_fileHash = ''h1''\<rparr>,
      \<lparr>ca_env = bobEnv, ca_title = ''b'', ca_description = [], ca_tags = [],
       ca_fileHash = ''h2''\<rparr>] initialStorage
     = ([Inr 0, Inr 1],
        snd (createAll
          [\<lparr>ca_env = aliceEnv, ca_title = ''a'', ca_description = ''x'', ca_tags = [''t''],
            ca_fileHash = ''h1''\<rparr>,
           \<lparr>ca_env = bobEnv, ca_title = ''b'', ca_description = [], ca_tags = [],
            ca_fileHash = ''h2''\<rparr>] initialStorage))
   \<and> unat (getMetadataCount (snd (createAll
          [\<lparr>ca_env = aliceEnv, ca_title = ''a'', ca_description = ''x'', ca_tags = [''t''],
            ca_fileHash = ''h1''\<rparr>,
           \<lparr>ca_env = bobEnv, ca_title = ''b'', ca_description = [], ca_tags = [],
            ca_fileHash = ''h2''\<rparr>] initialStorage))) = 2
   \<and> sorted_wrt (<) [0, 1 :: uint256]"
proof -
  let ?cs = "[\<lparr>ca_env = aliceEnv, ca_title = ''a'', ca_description = ''x'', ca_tags = [''t''],
       ca_fileHash = ''h1''\<rparr>,
      \<lparr>ca_env = bobEnv, ca_title = ''b'', ca_description = [], ca_tags = [],
       ca_fileHash = ''h2''\<rparr>]"
  have run: "createAll ?cs initialStorage = ([Inr 0, Inr 1], snd (createAll ?cs initialStorage))"
    by (simp add: createMetadata_def initialStorage_def Let_def)
  from createAll_count_and_ids [OF run] show ?thesis
    using run by simp
qed

text \<open>
  Claim C3. In every state, for every existing record (id below the count) and every
  caller other than the record's stored owner, \<open>updateFileHash\<close> and
  \<open>addCustomField\<close> fail with \<open>Unauthorized\<close> ("Not the owner") and the contract
  state after the call is the state before it: every field of every record, and the
  count.
\<close>

theorem non_owner_write_unauthorized:
  assumes "i < getMetadataCount s" and "sender env \<noteq> owner (metadataStore s i)"
  shows "updateFileHash env i h s = (Inl Unauthorized, s)
    \<and> addCustomField env i k v s = (Inl Unauthorized, s)"
  using assms by (simp add: updateFileHash_def addCustomField_def getMetadataCount_def)

theorem non_owner_write_unauthorized_witness:
  "0 < getMetadataCount oneRecordStorage
   \<and> sender bobEnv \<noteq> owner (metadataStore oneRecordStorage 0)
   \<and> updateFileHash bobEnv 0 ''h9'' oneRecordStorage = (Inl Unauthorized, oneRecordStorage)
   \<and> addCustomField bobEnv 0 ''k'' ''v'' oneRecordStorage
       = (Inl Unauthorized, oneRecordStorage)"
proof -
  have h1: "0 < getMetadataCount oneRecordStorage"
    by (simp add: oneRecordStorage_def createMetadata_def initialStorage_def
        getMetadataCount_def Let_def)
  have h2: "sender bobEnv \<noteq> owner (metadataStore oneRecordStorage 0)"
    by (simp add: oneRecordStorage_def createMetadata_def initialStorage_def
        aliceEnv_def bobEnv_def Let_def)
  from non_owner_write_unauthorized [OF h1 h2] h1 h2 show ?thesis
    by blast
qed

text \<open>
  Claim C4. In every state and for every id greater than or equal to the count,
  \<open>getMetadata\<close>, \<open>getCustomField\<close>, \<open>updateFileHash\<close> and \<open>addCustomField\<close>
  fail with \<open>NotFound\<close> ("Metadata does not exist"), whoever calls; the two writes
  leave the state as it was.
\<close>

theorem out_of_range_not_found:
  assumes "getMetadataCount s \<le> i"
  shows "getMetadata i s = Inl NotFound
    \<and> getCustomField i k s = Inl NotFound
    \<and> updateFileHash env i h s = (Inl NotFound, s)
    \<and> addCustomField env i k v s = (Inl NotFound, s)"
  using assms
  by (simp add: getMetadata_def getCustomField_def updateFileHash_def addCustomField_def
      getMetadataCount_def)

theorem out_of_range_not_found_witness:
  "getMetadataCount oneRecordStorage \<le> 1
   \<and> getMetadata 1 oneRecordStorage = Inl NotFound
   \<and> getCustomField 1 ''k'' oneRecordStorage = Inl NotFound
   \<and> updateFileHash aliceEnv 1 ''h9'' oneRecordStorage = (Inl NotFound, oneRecordStorage)
   \<and> addCustomField aliceEnv 1 ''k'' ''v'' oneRecordStorage = (Inl NotFound, oneRecordStorage)"
proof -
  have h: "getMetadataCount oneRecordStorage \<le> 1"
    by (simp add: oneRecordStorage_def createMetadata_def initialStorage_def
        getMetadataCount_def Let_def)
  from out_of_range_not_found [OF h] h show ?thesis
    by blast
qed

text \<open>
  Claim C9, as stated (for every store state, \<open>createMetadata\<close> returns the pre-call
  count), fails in the state whose counter is the largest \<open>uint256\<close>: the checked
  increment \<open>metadataCount++\<close> panics with code 0x11 and nothing is returned.
\<close>

theorem createMetadata_overflow_counterexample:
  "getMetadataCount fullStorage = - 1
   \<and> createMetadata aliceEnv ''a'' ''x'' [''t''] ''h1'' fullStorage
       = (Inl (Panic 17), fullStorage)"
  by (simp add: createMetadata_def fullStorage_def getMetadataCount_def)

text \<open>
  Claim C9, amended. In every state whose count is below the largest \<open>uint256\<close>, and
  for every caller, \<open>createMetadata(title, description, tags, fileHash)\<close> succeeds and
  returns the pre-call count as id (emitting \<open>MetadataCreated\<close>), and right after it
  \<open>getMetadata(id)\<close> succeeds and returns exactly (title, description, caller, block
  timestamp of the create, tags, fileHash).
\<close>

theorem createMetadata_getMetadata_roundtrip:
  assumes "getMetadataCount s \<noteq> - 1"
  shows "fst (createMetadata env t d tg h s)
       = Inr (getMetadataCount s, MetadataCreated (getMetadataCount s) t (sender env) h)
    \<and> getMetadata (getMetadataCount s) (snd (createMetadata env t d tg h s))
       = Inr (t, d, sender env, block_timestamp env, tg, h)"
  using assms
  by (simp add: createMetadata_def getMetadata_def getMetadataCount_def Let_def
      word_less_nat_alt unat_succ)

theorem createMetadata_getMetadata_roundtrip_witness:
  "getMetadataCount oneRecordStorage \<noteq> - 1
   \<and> fst (createMetadata bobEnv ''b'' [] [''u'', ''w''] ''h2'' oneRecordStorage)
       = Inr (1, MetadataCreated 1 ''b'' 9 ''h2'')
   \<and> getMetadata 1 (snd (createMetadata bobEnv ''b'' [] [''u'', ''w''] ''h2'' oneRecordStorage))
       = Inr (''b'', [], 9, 101, [''u'', ''w''], ''h2'')"
proof -
  have c: "getMetadataCount oneRecordStorage = 1"
    by (simp add: oneRecordStorage_def createMetadata_def initialStorage_def
        getMetadataCount_def Let_def)
  then have h: "getMetadataCount oneRecordStorage \<noteq> - 1"
    by simp
  from createMetadata_getMetadata_roundtrip [OF h, of bobEnv "''b''" "[]" "[''u'', ''w'']" "''h2''"]
  show ?thesis
    using h by (simp add: c bobEnv_def)
qed

text \<open>
  Claim C10. In every state, for every existing record and the caller who owns it,
  \<open>updateFileHash\<close> succeeds and changes only the record's \<open>fileHash\<close>, and
  \<open>addCustomField\<close> succeeds and changes only the record's custom field at the given
  key. In both cases the record's title, description, owner, timestamp and tags, its
  other custom fields, every other record and the count are as before.
\<close>

theorem owner_write_frame:
  assumes "i < getMetadataCount s" and "sender env = owner (metadataStore s i)"
  shows "fst (updateFileHash env i h s) = Inr ((), FileHashUpdated i h)
    \<and> metadataStore (snd (updateFileHash env i h s)) i = (metadataStore s i)\<lparr>fileHash := h\<rparr>
    \<and> title (metadataStore (snd (updateFileHash env i h s)) i) = title (metadataStore s i)
    \<and> description (metadataStore (snd (updateFileHash env i h s)) i)
        = description (metadataStore s i)
    \<and> owner (metadataStore (snd (updateFileHash env i h s)) i) = owner (metadataStore s i)
    \<and> timestamp (metadataStore (snd (updateFileHash env i h s)) i)
        = timestamp (metadataStore s i)
    \<and> tags (metadataStore (snd (updateFileHash env i h s)) i) = tags (metadataStore s i)
    \<and> customFields (metadataStore (snd (updateFileHash env i h s)) i)
        = customFields (metadataStore s i)
    \<and> (\<forall>j. j \<noteq> i \<longrightarrow> metadataStore (snd (updateFileHash env i h s)) j = metadataStore s j)
    \<and> metadataCount (snd (updateFileHash env i h s)) = metadataCount s
    \<and> fst (addCustomField env i k v s) = Inr ((), CustomFieldAdded i k v)
    \<and> customFields (metadataStore (snd (addCustomField env i k v s)) i) k = v
    \<and> (\<forall>k'. k' \<noteq> k \<longrightarrow> customFields (metadataStore (snd (addCustomField env i k v s)) i) k'
          = customFields (metadataStore s i) k')
    \<and> title (metadataStore (snd (addCustomField env i k v s)) i) = title (metadataStore s i)
    \<and> description (metadataStore (snd (addCustomField env i k v s)) i)
        = description (metadataStore s i)
    \<and> owner (metadataStore (snd (addCustomField env i k v s)) i) = owner (metadataStore s i)
    \<and> timestamp (metadataStore (snd (addCustomField env i k v s)) i)
        = timestamp (metadataStore s i)
    \<and> tags (metadataStore (snd (addCustomField env i k v s)) i) = tags (metadataStore s i)
    \<and> fileHash (metadataStore (snd (addCustomField env i k v s)) i)
        = fileHash (metadataStore s i)
    \<and> (\<forall>j. j \<noteq> i \<longrightarrow> metadataStore (snd (addCustomField env i k v s)) j = metadataStore s j)
    \<and> metadataCount (snd (addCustomField env i k v s)) = metadataCount s"
  using assms by (simp add: updateFileHash_def addCustomField_def getMetadataCount_def)

theorem owner_write_frame_witness:
  "0 < getMetadataCount oneRecordStorage
   \<and> sender aliceEnv = owner (metadataStore oneRecordStorage 0)
   \<and> fst (updateFileHash aliceEnv 0 ''h9'' oneRecordStorage) = Inr ((), FileHashUpdated 0 ''h9'')
   \<and> getMetadata 0 (snd (updateFileHash aliceEnv 0 ''h9'' oneRecordStorage))
       = Inr (''a'', ''x'', 7, 100, [''t''], ''h9'')
   \<and> getCustomField 0 ''k'' (snd (addCustomField aliceEnv 0 ''k'' ''v'' oneRecordStorage))
       = Inr ''v''
   \<and> getMetadata 0 (snd (addCustomField aliceEnv 0 ''k'' ''v'' oneRecordStorage))
       = Inr (''a'', ''x'', 7, 100, [''t''], ''h1'')"
proof -
  have h1: "0 < getMetadataCount oneRecordStorage"
    by (simp add: oneRecordStorage_def createMetadata_def initialStorage_def
        getMetadataCount_def Let_def)
  have h2: "sender aliceEnv = owner (metadataStore oneRecordStorage 0)"
    by (simp add: oneRecordStorage_def createMetadata_def initialStorage_def Let_def)
  have rec: "metadataStore oneRecordStorage 0 =
      \<lparr>title = ''a'', description = ''x'', owner = 7, timestamp = 100, tags = [''t''],
       fileHash = ''h1'', customFields = (\<lambda>_. [])\<rparr>"
    by (simp add: oneRecordStorage_def createMetadata_def initialStorage_def Let_def
        aliceEnv_def emptyMetadata_def)
  have cnt: "metadataCount oneRecordStorage = 1"
    by (simp add: oneRecordStorage_def createMetadata_def initialStorage_def Let_def)
  from owner_write_frame [OF h1 h2, of "''h9''" "''k''" "''v''"] h1 h2 show ?thesis
    by (simp add: getMetadata_def getCustomField_def rec cnt)
qed

section \<open>Results on the dashboard script\<close>

subsection \<open>The poll cycle\<close>

text \<open>
  Claim C1, as stated, fails. In a poll cycle in which \<open>/api/ledger\<close> answers
  500 and \<open>/api/blockchain\<close> would answer with one block, the inner \<open>catch\<close> of the
  ledger request rethrows, the rest of the \<open>try\<close> block is skipped, and the outer
  \<open>catch\<close> has no array to render: the requests of the cycle are those for the
  Flower status and the ledger only, and the audit-log table still shows what it
  showed before, not the row of the block.
\<close>

theorem ledger_failure_skips_audit_fetch_counterexample:
  "fetched ''Failed to fetch ledger: '' (pe_ledger ledgerDownEnv)
     = Inl ''Failed to fetch ledger: 500 Internal Server Error''
   \<and> fetched ''Failed to fetch blockchain data: '' (pe_blockchain ledgerDownEnv) = Inr [block1]
   \<and> pg_requests (fetchAndUpdateData ledgerDownEnv examplePage)
     = [''/api/flower/status'', ''/api/ledger'']
   \<and> pg_blockchainBody examplePage = NoData ''No blockchain data available''
   \<and> pg_blockchainBody (fetchAndUpdateData ledgerDownEnv examplePage)
     = NoData ''No blockchain data available''
   \<and> updateBlockchainTable [block1] = Rows [block_row block1]"
  by (simp add: ledgerDownEnv_def examplePage_def fetchAndUpdateData_def fetched_def
      onError_def showError_def hideError_def setLoading_def fetch_def Let_def
      updateBlockchainTable_def array_sort_def)

text \<open>
  Claim C1, amended. A failure of a critical request ends the poll cycle. When the
  ledger request fails, the error banner shows \<open>Error: Failed to load training data:\<close>
  followed by the failure's message (provided the banner's two elements exist) and
  the loading indicator is cleared, but the audit-log request is not made and neither
  table is touched. When the ledger request succeeds and the audit-log request fails,
  both requests have been made, the banner shows
  \<open>Error: Failed to load blockchain data:\<close> followed by the message, the ledger table
  is rendered from the fetched entries if there are any, and the audit-log table is
  not touched.
\<close>

theorem critical_fetch_failure_ends_cycle:
  "(fetched ''Failed to fetch ledger: '' (pe_ledger env) = Inl message \<longrightarrow>
      pg_requests (fetchAndUpdateData env p)
        = pg_requests p @ [''/api/flower/status'', ''/api/ledger'']
      \<and> pg_blockchainBody (fetchAndUpdateData env p) = pg_blockchainBody p
      \<and> pg_ledgerBody (fetchAndUpdateData env p) = pg_ledgerBody p
      \<and> \<not> pg_loading (fetchAndUpdateData env p)
      \<and> (pe_errorDiv env \<and> pe_errorText env \<longrightarrow>
            \<not> pg_errorHidden (fetchAndUpdateData env p)
            \<and> pg_errorText (fetchAndUpdateData env p)
                = ''Error: Failed to load training data: '' @ message))
   \<and> (fetched ''Failed to fetch ledger: '' (pe_ledger env) = Inr ledgerData
      \<and> fetched ''Failed to fetch blockchain data: '' (pe_blockchain env) = Inl message \<longrightarrow>
      pg_requests (fetchAndUpdateData env p)
        = pg_requests p @ [''/api/flower/status'', ''/api/ledger'', ''/api/blockchain'']
      \<and> pg_blockchainBody (fetchAndUpdateData env p) = pg_blockchainBody p
      \<and> pg_ledgerBody (fetchAndUpdateData env p)
          = (if ledgerData \<noteq> [] then updateLedgerTable ledgerData else pg_ledgerBody p)
      \<and> \<not> pg_loading (fetchAndUpdateData env p)
      \<and> (pe_errorDiv env \<and> pe_errorText env \<longrightarrow>
            \<not> pg_errorHidden (fetchAndUpdateData env p)
            \<and> pg_errorText (fetchAndUpdateData env p)
                = ''Error: Failed to load blockchain data: '' @ message))"
  by (simp add: fetchAndUpdateData_def onError_def showError_def hideError_def setLoading_def
      fetch_def Let_def)

theorem critical_fetch_failure_ends_cycle_witness:
  "fetched ''Failed to fetch ledger: '' (pe_ledger ledgerDownEnv)
     = Inl ''Failed to fetch ledger: 500 Internal Server Error''
   \<and> pe_errorDiv ledgerDownEnv \<and> pe_errorText ledgerDownEnv
   \<and> \<not> pg_errorHidden (fetchAndUpdateData ledgerDownEnv examplePage)
   \<and> pg_errorText (fetchAndUpdateData ledgerDownEnv examplePage)
       = ''Error: Failed to load training data: Failed to fetch ledger: 500 Internal Server Error''
   \<and> pg_requests (fetchAndUpdateData ledgerDownEnv examplePage)
       = [''/api/flower/status'', ''/api/ledger'']
   \<and> fetched ''Failed to fetch ledger: '' (pe_ledger auditDownEnv) = Inr [entry1, entry2, entry3]
   \<and> fetched ''Failed to fetch blockchain data: '' (pe_blockchain auditDownEnv)
       = Inl ''Failed to fetch''
   \<and> pe_errorDiv auditDownEnv \<and> pe_errorText auditDownEnv
   \<and> pg_errorText (fetchAndUpdateData auditDownEnv examplePage)
       = ''Error: Failed to load blockchain data: Failed to fetch''
   \<and> pg_ledgerBody (fetchAndUpdateData auditDownEnv examplePage)
       = updateLedgerTable [entry1, entry2, entry3]
   \<and> pg_requests (fetchAndUpdateData auditDownEnv examplePage)
       = [''/api/flower/status'', ''/api/ledger'', ''/api/blockchain'']"
proof -
  have h1: "fetched ''Failed to fetch ledger: '' (pe_ledger ledgerDownEnv)
     = Inl ''Failed to fetch ledger: 500 Internal Server Error''"
    by (simp add: ledgerDownEnv_def fetched_def)
  have h2: "pe_errorDiv ledgerDownEnv \<and> pe_errorText ledgerDownEnv"
    by (simp add: ledgerDownEnv_def)
  have h3: "fetched ''Failed to fetch ledger: '' (pe_ledger auditDownEnv)
       = Inr [entry1, entry2, entry3]
     \<and> fetched ''Failed to fetch blockchain data: '' (pe_blockchain auditDownEnv)
       = Inl ''Failed to fetch''"
    by (simp add: auditDownEnv_def fetched_def)
  have h4: "pe_errorDiv auditDownEnv \<and> pe_errorText auditDownEnv"
    by (simp add: auditDownEnv_def)
  have p: "pg_requests examplePage = []"
    by (simp add: examplePage_def)
  from critical_fetch_failure_ends_cycle
         [of ledgerDownEnv "''Failed to fetch ledger: 500 Internal Server Error''" examplePage]
       critical_fetch_failure_ends_cycle
         [of auditDownEnv "''Failed to fetch''" examplePage "[entry1, entry2, entry3]"]
       h1 h2 h3 h4 p
  show ?thesis by simp
qed

subsection \<open>The Flower status panel\<close>

lemma statusText_render:
  "fp_statusText (updateFlowerStatus (Json status) panel) = fst (status_label status)"
  by (simp add: updateFlowerStatus_def renderFlowerStatus_def Let_def split: prod.splits)

lemma progressText_render:
  "fp_progressText (updateFlowerStatus (Json status) panel) =
     (if gt_zero (st_total_rounds status)
      then percent_text (progress_percent (st_current_round status) (st_total_rounds status))
      else ''0%'')"
  by (simp add: updateFlowerStatus_def renderFlowerStatus_def Let_def split: prod.splits)

text \<open>
  Claim C6, as stated, fails for a connected server with exactly one client: the
  script drops the plural and writes \<open>Connected (1 client)\<close>, not
  \<open>Connected (1 clients)\<close>.
\<close>

theorem connected_label_singular_counterexample:
  "st_connected exampleStatus
   \<and> st_clients_connected exampleStatus = Number 1
   \<and> fp_statusText (updateFlowerStatus (Json exampleStatus) examplePanel)
       = ''Connected (1 client)''
   \<and> spec_connected_label 1 = ''Connected (1 clients)''"
  by (simp add: exampleStatus_def statusText_render status_label_def to_string_def
      show_int_def spec_connected_label_def)

text \<open>
  Claim C6, amended. For every status object the label is chosen by the first flag
  that is set, in the order \<open>connected\<close>, \<open>server_running\<close>,
  \<open>training_in_progress\<close>: if \<open>connected\<close>, the label is \<open>Connected (N clients)\<close>
  with \<open>N = clients_connected\<close>, written \<open>Connected (1 client)\<close> when \<open>N\<close> is 1,
  whatever the two later flags are; otherwise, if \<open>server_running\<close>, it is
  \<open>Server running but not accessible\<close>, whatever \<open>training_in_progress\<close> is;
  otherwise, if \<open>training_in_progress\<close>, it is \<open>Starting up...\<close>; otherwise it is
  \<open>Disconnected\<close>.
\<close>

theorem status_label_priority:
  "(st_connected status \<longrightarrow>
      fp_statusText (updateFlowerStatus (Json status) panel) =
        ''Connected ('' @ to_string (st_clients_connected status)
          @ (if st_clients_connected status = Number 1 then '' client)'' else '' clients)''))
   \<and> (\<not> st_connected status \<and> st_server_running status \<longrightarrow>
      fp_statusText (updateFlowerStatus (Json status) panel)
        = ''Server running but not accessible'')
   \<and> (\<not> st_connected status \<and> \<not> st_server_running status
        \<and> st_training_in_progress status \<longrightarrow>
      fp_statusText (updateFlowerStatus (Json status) panel) = ''Starting up...'')
   \<and> (\<not> st_connected status \<and> \<not> st_server_running status
        \<and> \<not> st_training_in_progress status \<longrightarrow>
      fp_statusText (updateFlowerStatus (Json status) panel) = ''Disconnected'')"
  by (simp add: statusText_render status_label_def)

theorem status_label_priority_witness:
  "fp_statusText (updateFlowerStatus (Json exampleStatus) examplePanel) = ''Connected (1 client)''
   \<and> fp_statusText (updateFlowerStatus
         (Json (exampleStatus\<lparr>st_clients_connected := Number 12\<rparr>)) examplePanel)
       = ''Connected (12 clients)''
   \<and> fp_statusText (updateFlowerStatus
         (Json (exampleStatus\<lparr>st_connected := False\<rparr>)) examplePanel)
       = ''Server running but not accessible''
   \<and> fp_statusText (updateFlowerStatus
         (Json (exampleStatus\<lparr>st_connected := False, st_server_running := False\<rparr>))
         examplePanel)
       = ''Starting up...''
   \<and> fp_statusText (updateFlowerStatus
         (Json (exampleStatus\<lparr>st_connected := False, st_server_running := False,
            st_training_in_progress := False\<rparr>)) examplePanel)
       = ''Disconnected''"
  using status_label_priority [of exampleStatus examplePanel]
    status_label_priority [of "exampleStatus\<lparr>st_clients_connected := Number 12\<rparr>" examplePanel]
    status_label_priority [of "exampleStatus\<lparr>st_connected := False\<rparr>" examplePanel]
    status_label_priority
      [of "exampleStatus\<lparr>st_connected := False, st_server_running := False\<rparr>" examplePanel]
    status_label_priority
      [of "exampleStatus\<lparr>st_connected := False, st_server_running := False,
            st_training_in_progress := False\<rparr>" examplePanel]
  by (simp add: exampleStatus_def to_string_def show_int_def)

subsection \<open>Rounding to binary64\<close>

lemma pow2_pos: "0 < pow2 e"
  by (simp add: pow2_def)

lemma pow2_shift: "pow2 (e - 52) * 2 ^ 52 = pow2 e"
proof -
  have "pow2 e = 2 powi e" for e
    by (simp add: pow2_def power_int_def field_simps)
  then show ?thesis
    by (simp add: power_int_diff)
qed

text \<open>
  The exponent found for a positive number is its binary order of magnitude:
  \<open>2^(ilog2 x) \<le> x < 2^(ilog2 x + 1)\<close>.
\<close>

lemma ilog2_lower:
  assumes "0 < x"
  shows "pow2 (ilog2 x) \<le> x"
proof (cases "1 \<le> x")
  case True
  then have n: "0 < \<lfloor>x\<rfloor>" by simp
  from bitlen_bounds [OF n] have b: "2 ^ nat (bitlen \<lfloor>x\<rfloor> - 1) \<le> \<lfloor>x\<rfloor>" by simp
  have "1 \<le> bitlen \<lfloor>x\<rfloor>"
    using n bitlen_eq_zero_iff [of "\<lfloor>x\<rfloor>"] bitlen_nonneg [of "\<lfloor>x\<rfloor>"] by linarith
  then have "pow2 (ilog2 x) = of_int (2 ^ nat (bitlen \<lfloor>x\<rfloor> - 1))"
    using True by (simp add: ilog2_def pow2_def)
  also have "\<dots> \<le> of_int \<lfloor>x\<rfloor>" using b by (simp only: of_int_le_iff)
  also have "\<dots> \<le> x" by simp
  finally show ?thesis .
next
  case False
  let ?m = "\<lceil>1 / x\<rceil> - 1"
  from False assms have "1 < 1 / x" by simp
  then have m: "0 < ?m" by linarith
  from bitlen_bounds [OF m] have b: "?m < 2 ^ nat (bitlen ?m)" by simp
  have b1: "1 \<le> bitlen ?m"
    using m bitlen_eq_zero_iff [of ?m] bitlen_nonneg [of ?m] by linarith
  from b have "\<lceil>1 / x\<rceil> \<le> 2 ^ nat (bitlen ?m)" by linarith
  then have "1 / x \<le> of_int (2 ^ nat (bitlen ?m))"
    by (simp only: ceiling_le_iff)
  then have "1 / x \<le> 2 ^ nat (bitlen ?m)" by simp
  then have "1 \<le> 2 ^ nat (bitlen ?m) * x"
    using assms by (simp add: field_simps)
  then have "1 / 2 ^ nat (bitlen ?m) \<le> x"
    by (simp add: field_simps)
  moreover have "pow2 (ilog2 x) = 1 / 2 ^ nat (bitlen ?m)"
    using False b1 by (simp add: ilog2_def pow2_def)
  ultimately show ?thesis by simp
qed

lemma ilog2_upper:
  assumes "0 < x"
  shows "x < pow2 (ilog2 x + 1)"
proof (cases "1 \<le> x")
  case True
  then have n: "0 < \<lfloor>x\<rfloor>" by simp
  from bitlen_bounds [OF n] have "\<lfloor>x\<rfloor> + 1 \<le> 2 ^ nat (bitlen \<lfloor>x\<rfloor>)" by simp
  then have "of_int (\<lfloor>x\<rfloor> + 1) \<le> rat_of_int (2 ^ nat (bitlen \<lfloor>x\<rfloor>))"
    by (simp only: of_int_le_iff)
  moreover have "x < of_int (\<lfloor>x\<rfloor> + 1)" by linarith
  ultimately have "x < 2 ^ nat (bitlen \<lfloor>x\<rfloor>)" by simp
  moreover have "pow2 (ilog2 x + 1) = 2 ^ nat (bitlen \<lfloor>x\<rfloor>)"
    using True bitlen_nonneg [of "\<lfloor>x\<rfloor>"] by (simp add: ilog2_def pow2_def)
  ultimately show ?thesis by simp
next
  case False
  let ?m = "\<lceil>1 / x\<rceil> - 1"
  from False assms have "1 < 1 / x" by simp
  then have m: "0 < ?m" by linarith
  from bitlen_bounds [OF m] have "2 ^ nat (bitlen ?m - 1) \<le> ?m" by simp
  then have "rat_of_int (2 ^ nat (bitlen ?m - 1)) \<le> of_int ?m"
    by (simp only: of_int_le_iff)
  moreover have "of_int ?m < 1 / x" by linarith
  ultimately have "2 ^ nat (bitlen ?m - 1) < 1 / x" by simp
  then have "x * 2 ^ nat (bitlen ?m - 1) < 1"
    using assms by (simp add: field_simps)
  then have "x < 1 / 2 ^ nat (bitlen ?m - 1)"
    by (simp add: field_simps)
  moreover have b1: "1 \<le> bitlen ?m"
    using m bitlen_eq_zero_iff [of ?m] bitlen_nonneg [of ?m] by linarith
  then have "pow2 (ilog2 x + 1) = 1 / 2 ^ nat (bitlen ?m - 1)"
    using False by (auto simp: ilog2_def pow2_def nat_diff_distrib)
  ultimately show ?thesis by simp
qed

text \<open>
  The rounding agrees with binary64 on the values the examples below go through:
  0.3 is \<open>0x1.3333333333333p-2\<close>, and 0.575 times 100 is the double just below
  57.5.
\<close>

lemma fl_examples:
  "fl (3 / 10) = 5404319552844595 / 18014398509481984
   \<and> fl (23 / 40) = 2589569785738035 / 4503599627370496
   \<and> fl (fl (23 / 40) * 100) = 8092405580431359 / 140737488355328
   \<and> fl (fl (3 / 10) * 100) = 30
   \<and> fl (fl (- 1 / 10) * 100) = - 10
   \<and> fl 100 = 100"
  by code_simp

lemma round_even_err: "\<bar>of_int (round_even y) - y\<bar> \<le> 1 / 2"
proof -
  have "of_int \<lfloor>y\<rfloor> \<le> y" "y < of_int \<lfloor>y\<rfloor> + 1" by linarith+
  then show ?thesis
    by (auto simp: round_even_def Let_def abs_le_iff)
qed

lemma round_even_nonneg: "0 \<le> y \<Longrightarrow> 0 \<le> round_even y"
  by (auto simp: round_even_def Let_def)

lemma fl_nonneg: "0 \<le> x \<Longrightarrow> 0 \<le> fl x"
  by (simp add: fl_def Let_def round_even_nonneg pow2_pos less_imp_le)

lemma round_even_nonpos: "y \<le> 0 \<Longrightarrow> round_even y \<le> 0"
proof -
  assume "y \<le> 0"
  moreover have "of_int \<lfloor>y\<rfloor> \<le> y" "y < of_int \<lfloor>y\<rfloor> + 1" by linarith+
  ultimately show ?thesis
    by (auto simp: round_even_def Let_def)
qed

lemma fl_nonpos: "x \<le> 0 \<Longrightarrow> fl x \<le> 0"
proof -
  assume x: "x \<le> 0"
  show ?thesis
  proof (cases "x = 0")
    case True
    then show ?thesis by (simp add: fl_def)
  next
    case False
    define e where "e = ilog2 \<bar>x\<bar> - 52"
    from x pow2_pos [of e] have "x / pow2 e \<le> 0"
      by (simp add: divide_nonpos_pos)
    then have "rat_of_int (round_even (x / pow2 e)) \<le> 0"
      using round_even_nonpos by simp
    then have "rat_of_int (round_even (x / pow2 e)) * pow2 e \<le> 0"
      using pow2_pos [of e] by (simp add: mult_le_0_iff)
    with False show ?thesis by (simp add: fl_def Let_def e_def)
  qed
qed

text \<open>Rounding to binary64 moves a number by at most the fraction \<open>2^-53\<close> of it.\<close>

lemma fl_err: "\<bar>fl x - x\<bar> \<le> \<bar>x\<bar> / 2 ^ 53"
proof (cases "x = 0")
  case True
  then show ?thesis by (simp add: fl_def)
next
  case False
  define s where "s = pow2 (ilog2 \<bar>x\<bar> - 52)"
  have s: "0 < s" by (simp add: s_def pow2_pos)
  have fl: "fl x = of_int (round_even (x / s)) * s"
    using False by (simp add: fl_def s_def Let_def)
  have "fl x - x = (of_int (round_even (x / s)) - x / s) * s"
    using s by (simp add: fl field_simps)
  then have "\<bar>fl x - x\<bar> = \<bar>of_int (round_even (x / s)) - x / s\<bar> * s"
    using s by (simp add: abs_mult)
  also have "\<dots> \<le> 1 / 2 * s"
    using round_even_err [of "x / s"] s by (intro mult_right_mono) simp_all
  finally have 1: "\<bar>fl x - x\<bar> \<le> s / 2" by simp
  have "s * 2 ^ 52 = pow2 (ilog2 \<bar>x\<bar>)"
    unfolding s_def by (rule pow2_shift)
  also have "\<dots> \<le> \<bar>x\<bar>"
    using ilog2_lower [of "\<bar>x\<bar>"] False by simp
  finally have "s * 2 ^ 52 \<le> \<bar>x\<bar>" .
  then have "s / 2 \<le> \<bar>x\<bar> / 2 ^ 53" by simp
  with 1 show ?thesis by linarith
qed

text \<open>
  For a non-negative \<open>current_round\<close> and a positive \<open>total_rounds\<close> the percentage
  the script computes is within one of the specification's exactly rounded value.
\<close>

lemma progress_close:
  assumes c: "0 \<le> c" and t: "0 < t"
  shows "\<bar>min 100 (round (fl (fl (rat_of_int c / rat_of_int t) * 100))) - spec_progress c t\<bar>
           \<le> 1"
proof -
  define x where "x = rat_of_int c / rat_of_int t"
  define q where "q = fl x"
  define p where "p = fl (q * 100)"
  have x0: "0 \<le> x" using c t by (simp add: x_def)
  have q0: "0 \<le> q" using x0 by (simp add: q_def fl_nonneg)
  have qe: "\<bar>q - x\<bar> \<le> x / 9007199254740992"
    using fl_err [of x] x0 by (simp add: q_def)
  have pe: "\<bar>p - q * 100\<bar> \<le> q * 100 / 9007199254740992"
    using fl_err [of "q * 100"] q0 by (simp add: p_def)
  have spec: "spec_progress c t = max 0 (min 100 (round (100 * x)))"
    by (simp add: spec_progress_def x_def)
  have r0: "0 \<le> round (100 * x)"
    using x0 by (simp add: round_def)
  show ?thesis
  proof (cases "x \<le> 2")
    case True
    from qe pe True x0 q0 have close: "\<bar>p - 100 * x\<bar> \<le> 1 / 2"
      by linarith
    have up: "round p \<le> round (100 * x) + 1"
      using close unfolding round_def by linarith
    have down: "round (100 * x) \<le> round p + 1"
      using close unfolding round_def by linarith
    from up down r0 show ?thesis
      unfolding spec p_def [symmetric] q_def [symmetric] x_def [symmetric] by linarith
  next
    case False
    from qe False have q2: "19 / 10 \<le> q"
      by linarith
    from pe q2 have "180 \<le> p"
      by linarith
    then have "100 \<le> round p"
      by (simp add: round_def le_floor_iff)
    moreover have "100 \<le> round (100 * x)"
      using False by (simp add: round_def le_floor_iff)
    ultimately show ?thesis
      unfolding spec p_def [symmetric] q_def [symmetric] x_def [symmetric] by linarith
  qed
qed

subsection \<open>The training-progress percentage\<close>

text \<open>
  Claim C5, as stated, fails. The script computes
  \<open>Math.min(100, Math.round((current_round / total_rounds) * 100))\<close> in binary64 and
  has no lower clamp. For round 23 of 40 the quotient 0.575 times 100 is
  57.49999999999999 in binary64, which renders as \<open>57%\<close>, while
  \<open>round(100 \<times> 23 / 40) = round(57.5)\<close> is 58. For \<open>current_round = -1\<close> of 10 the
  script renders \<open>-10%\<close>, while the value clamped to \<open>[0, 100]\<close> is 0. With a positive
  \<open>total_rounds\<close> and no \<open>current_round\<close> the script renders \<open>NaN%\<close>.
\<close>

theorem progress_percent_counterexample:
  "fp_progressText (updateFlowerStatus
       (Json (exampleStatus\<lparr>st_current_round := Number 23, st_total_rounds := Number 40\<rparr>))
       examplePanel) = ''57%''
   \<and> spec_progress 23 40 = 58
   \<and> fp_progressText (updateFlowerStatus
       (Json (exampleStatus\<lparr>st_current_round := Number (- 1), st_total_rounds := Number 10\<rparr>))
       examplePanel) = ''-10%''
   \<and> spec_progress (- 1) 10 = 0
   \<and> fp_progressText (updateFlowerStatus
       (Json (exampleStatus\<lparr>st_current_round := Undefined, st_total_rounds := Number 10\<rparr>))
       examplePanel) = ''NaN%''"
  by code_simp

text \<open>
  Claim C5, amended. For every status object: when \<open>total_rounds\<close> is 0, negative,
  \<open>null\<close> or absent, the rendered text is \<open>0%\<close> and nothing is divided. When
  \<open>total_rounds\<close> is positive and \<open>current_round\<close> is a number, the rendered
  percentage is exactly \<open>Math.min(100, Math.round((current_round / total_rounds) * 100))\<close>
  as binary64 computes it: the quotient and then the product are rounded to binary64,
  and \<open>Math.round\<close> takes the nearest integer, ties upwards. That value is at most
  100. When \<open>current_round\<close> is not negative it is at least 0 and differs by at most
  one from \<open>round(100 \<times> current_round / total_rounds)\<close> clamped to \<open>[0, 100]\<close>; round
  23 of 40 renders as \<open>57%\<close>. When \<open>current_round\<close> is negative it is not clamped to 0:
  it is zero or negative, and \<open>-1\<close> of 10 renders as \<open>-10%\<close>. When \<open>total_rounds\<close> is
  positive and \<open>current_round\<close> is absent the text is \<open>NaN%\<close>, and when it is \<open>null\<close>
  the text is \<open>0%\<close>. In particular \<open>{current_round: 3, total_rounds: 10}\<close> renders as
  \<open>30%\<close>.
\<close>

theorem progress_text_value:
  "(\<not> gt_zero (st_total_rounds status) \<longrightarrow>
      fp_progressText (updateFlowerStatus (Json status) panel) = ''0%'')
   \<and> (st_total_rounds status = Number t \<and> 0 < t \<and> st_current_round status = Number c \<longrightarrow>
        fp_progressText (updateFlowerStatus (Json status) panel)
          = show_int (min 100 (round (fl (fl (rat_of_int c / rat_of_int t) * 100)))) @ ''%''
        \<and> min 100 (round (fl (fl (rat_of_int c / rat_of_int t) * 100))) \<le> 100
        \<and> (0 \<le> c \<longrightarrow>
              0 \<le> min 100 (round (fl (fl (rat_of_int c / rat_of_int t) * 100)))
              \<and> \<bar>min 100 (round (fl (fl (rat_of_int c / rat_of_int t) * 100)))
                   - spec_progress c t\<bar> \<le> 1)
        \<and> (c < 0 \<longrightarrow> min 100 (round (fl (fl (rat_of_int c / rat_of_int t) * 100))) \<le> 0))
   \<and> (st_total_rounds status = Number t \<and> 0 < t \<and> st_current_round status = Undefined \<longrightarrow>
        fp_progressText (updateFlowerStatus (Json status) panel) = ''NaN%'')
   \<and> (st_total_rounds status = Number t \<and> 0 < t \<and> st_current_round status = Null \<longrightarrow>
        fp_progressText (updateFlowerStatus (Json status) panel) = ''0%'')
   \<and> (st_total_rounds status = Number 10 \<and> st_current_round status = Number 3 \<longrightarrow>
        fp_progressText (updateFlowerStatus (Json status) panel) = ''30%'')
   \<and> (st_total_rounds status = Number 40 \<and> st_current_round status = Number 23 \<longrightarrow>
        fp_progressText (updateFlowerStatus (Json status) panel) = ''57%'')
   \<and> (st_total_rounds status = Number 10 \<and> st_current_round status = Number (- 1) \<longrightarrow>
        fp_progressText (updateFlowerStatus (Json status) panel) = ''-10%'')"
proof (intro conjI impI)
  assume "\<not> gt_zero (st_total_rounds status)"
  then show "fp_progressText (updateFlowerStatus (Json status) panel) = ''0%''"
    by (simp add: progressText_render)
next
  assume a: "st_total_rounds status = Number t \<and> 0 < t \<and> st_current_round status = Number c"
  then show "fp_progressText (updateFlowerStatus (Json status) panel)
      = show_int (min 100 (round (fl (fl (rat_of_int c / rat_of_int t) * 100)))) @ ''%''"
    by (simp add: progressText_render progress_percent_def percent_text_def
        to_number_def gt_zero_def)
  show "min 100 (round (fl (fl (rat_of_int c / rat_of_int t) * 100))) \<le> 100"
    by simp
  {
    assume c: "0 \<le> c"
    with a have "0 \<le> fl (fl (rat_of_int c / rat_of_int t) * 100)"
      by (intro fl_nonneg mult_nonneg_nonneg) simp_all
    then have "0 \<le> round (fl (fl (rat_of_int c / rat_of_int t) * 100))"
      by (simp add: round_def)
    then show "0 \<le> min 100 (round (fl (fl (rat_of_int c / rat_of_int t) * 100)))"
      by simp
    from progress_close [OF c, of t] a
    show "\<bar>min 100 (round (fl (fl (rat_of_int c / rat_of_int t) * 100)))
            - spec_progress c t\<bar> \<le> 1"
      by simp
  }
  {
    assume c: "c < 0"
    with a have "rat_of_int c / rat_of_int t \<le> 0"
      by (simp add: divide_nonpos_pos)
    then have "fl (rat_of_int c / rat_of_int t) * 100 \<le> 0"
      using fl_nonpos by (simp add: mult_le_0_iff)
    then have "fl (fl (rat_of_int c / rat_of_int t) * 100) \<le> 0"
      by (rule fl_nonpos)
    then have "round (fl (fl (rat_of_int c / rat_of_int t) * 100)) \<le> 0"
      unfolding round_def by linarith
    then show "min 100 (round (fl (fl (rat_of_int c / rat_of_int t) * 100))) \<le> 0"
      by simp
  }
next
  assume "st_total_rounds status = Number t \<and> 0 < t \<and> st_current_round status = Undefined"
  then show "fp_progressText (updateFlowerStatus (Json status) panel) = ''NaN%''"
    by (simp add: progressText_render progress_percent_def percent_text_def
        to_number_def gt_zero_def)
next
  assume "st_total_rounds status = Number t \<and> 0 < t \<and> st_current_round status = Null"
  then show "fp_progressText (updateFlowerStatus (Json status) panel) = ''0%''"
    by (simp add: progressText_render progress_percent_def percent_text_def
        to_number_def gt_zero_def fl_def show_int_def)
next
  assume a: "st_total_rounds status = Number 10 \<and> st_current_round status = Number 3"
  have "percent_text (progress_percent (Number 3) (Number 10)) = ''30%''"
    by code_simp
  with a show "fp_progressText (updateFlowerStatus (Json status) panel) = ''30%''"
    by (simp add: progressText_render gt_zero_def to_number_def)
next
  assume a: "st_total_rounds status = Number 40 \<and> st_current_round status = Number 23"
  have "percent_text (progress_percent (Number 23) (Number 40)) = ''57%''"
    by code_simp
  with a show "fp_progressText (updateFlowerStatus (Json status) panel) = ''57%''"
    by (simp add: progressText_render gt_zero_def to_number_def)
next
  assume a: "st_total_rounds status = Number 10 \<and> st_current_round status = Number (- 1)"
  have "percent_text (progress_percent (Number (- 1)) (Number 10)) = ''-10%''"
    by code_simp
  with a show "fp_progressText (updateFlowerStatus (Json status) panel) = ''-10%''"
    by (simp add: progressText_render gt_zero_def to_number_def)
qed

theorem progress_text_value_witness:
  "st_total_rounds exampleStatus = Number 10 \<and> st_current_round exampleStatus = Number 3
   \<and> fp_progressText (updateFlowerStatus (Json exampleStatus) examplePanel) = ''30%''
   \<and> fp_progressText (updateFlowerStatus
        (Json (exampleStatus\<lparr>st_current_round := Number 23, st_total_rounds := Number 40\<rparr>))
        examplePanel) = ''57%''
   \<and> fp_progressText (updateFlowerStatus
        (Json (exampleStatus\<lparr>st_current_round := Number (- 1)\<rparr>)) examplePanel) = ''-10%''
   \<and> fp_progressText (updateFlowerStatus
        (Json (exampleStatus\<lparr>st_current_round := Undefined\<rparr>)) examplePanel) = ''NaN%''
   \<and> fp_progressText (updateFlowerStatus
        (Json (exampleStatus\<lparr>st_current_round := Null\<rparr>)) examplePanel) = ''0%''
   \<and> \<not> gt_zero (st_total_rounds (exampleStatus\<lparr>st_total_rounds := Number 0\<rparr>))
   \<and> fp_progressText (updateFlowerStatus
        (Json (exampleStatus\<lparr>st_total_rounds := Number 0\<rparr>)) examplePanel) = ''0%''
   \<and> \<not> gt_zero (st_total_rounds (exampleStatus\<lparr>st_total_rounds := Undefined\<rparr>))
   \<and> fp_progressText (updateFlowerStatus
        (Json (exampleStatus\<lparr>st_total_rounds := Undefined\<rparr>)) examplePanel) = ''0%''"
proof -
  have h1: "st_total_rounds exampleStatus = Number 10 \<and> st_current_round exampleStatus = Number 3"
    by (simp add: exampleStatus_def)
  have h2: "\<not> gt_zero (st_total_rounds (exampleStatus\<lparr>st_total_rounds := Number 0\<rparr>))"
    by (simp add: gt_zero_def to_number_def)
  have h3: "\<not> gt_zero (st_total_rounds (exampleStatus\<lparr>st_total_rounds := Undefined\<rparr>))"
    by (simp add: gt_zero_def to_number_def)
  have e: "show_int (min 100 (round (fl (fl (3 / 10) * 100)))) = ''30''"
    "show_int (min 100 (round (fl (fl (23 / 40) * 100)))) = ''57''"
    "show_int (min 100 (round (fl (fl (- (1 / 10)) * 100)))) = ''-10''"
    by code_simp+
  from progress_text_value [of exampleStatus examplePanel 10 3]
       progress_text_value
         [of "exampleStatus\<lparr>st_current_round := Number 23, st_total_rounds := Number 40\<rparr>"
            examplePanel 40 23]
       progress_text_value
         [of "exampleStatus\<lparr>st_current_round := Number (- 1)\<rparr>" examplePanel 10 "- 1"]
       progress_text_value
         [of "exampleStatus\<lparr>st_current_round := Undefined\<rparr>" examplePanel 10]
       progress_text_value
         [of "exampleStatus\<lparr>st_current_round := Null\<rparr>" examplePanel 10]
       progress_text_value
         [of "exampleStatus\<lparr>st_total_rounds := Number 0\<rparr>" examplePanel]
       progress_text_value
         [of "exampleStatus\<lparr>st_total_rounds := Undefined\<rparr>" examplePanel]
       h1 h2 h3
  show ?thesis by (simp add: exampleStatus_def e)
qed

subsection \<open>The tables\<close>

lemma take_run_append: "take_run cmp d p xs = (r, rest) \<Longrightarrow> r @ rest = xs"
  by (induction xs arbitrary: p r rest) (auto split: if_splits prod.splits)

lemma count_and_make_run_mset:
  "count_and_make_run cmp xs = (run, rest) \<Longrightarrow> mset run + mset rest = mset xs"
proof (induction cmp xs rule: count_and_make_run.induct)
  case (3 cmp hi lo rest')
  obtain r rem where tr: "take_run cmp (call_compare cmp lo hi < 0) lo rest' = (r, rem)"
    by (cases "take_run cmp (call_compare cmp lo hi < 0) lo rest'")
  from take_run_append [OF tr] have "mset r + mset rem = mset rest'"
    by (metis mset_append)
  with 3 tr show ?case
    by (auto simp: Let_def split: if_splits)
qed simp_all

lemma binary_insertion_sort_mset:
  "mset (binary_insertion_sort cmp ws ps) = mset ws + mset ps"
proof (induction ps arbitrary: ws)
  case Nil
  then show ?case by simp
next
  case (Cons p ps)
  have "mset (take n ws @ p # drop n ws) = add_mset p (mset ws)" for n
    by (metis append_take_drop_id mset.simps(2) mset_append union_mset_add_mset_right)
  with Cons show ?case by (simp add: Let_def)
qed


lemma insert_by_mset: "mset (insert_by cmp x ys) = add_mset x (mset ys)"
  by (induction ys) simp_all

lemma foldr_insert_by_mset: "mset (foldr (insert_by cmp) xs []) = mset xs"
  by (induction xs) (simp_all add: insert_by_mset)

lemma array_sort_mset: "mset (array_sort cmp xs) = mset xs"
proof (cases "length xs < 64")
  case True
  obtain run rest where r: "count_and_make_run cmp xs = (run, rest)"
    by (cases "count_and_make_run cmp xs")
  with True count_and_make_run_mset [OF r] show ?thesis
    by (simp add: array_sort_def binary_insertion_sort_mset)
next
  case False
  then show ?thesis by (simp add: array_sort_def foldr_insert_by_mset)
qed

lemma array_sort_set: "set (array_sort cmp xs) = set xs"
  by (metis array_sort_mset set_mset_mset)












text \<open>
  Claim C8. For every audit block whose \<open>previous_hash\<close> is the sentinel of 64 zero
  characters, the text of the "previous hash" cell of its row is the label
  \<open>Genesis\<close>, which is not the sentinel; for every block with another non-empty
  \<open>previous_hash\<close> the text is the hash cut to its first 16 characters, followed by
  \<open>...\<close>; and the row of every block handed to \<open>updateBlockchainTable\<close> is in the
  table. (The cell's \<open>title\<close> attribute, shown as a tooltip, carries the
  \<open>previous_hash\<close> as it is in both cases.)
\<close>

theorem genesis_previous_hash_cell:
  "(ab_previous_hash block = Some genesis_hash \<longrightarrow>
      br_prev_text (block_row block) = ''Genesis''
      \<and> br_prev_text (block_row block) \<noteq> genesis_hash)
   \<and> (ab_previous_hash block = Some h \<and> h \<noteq> [] \<and> h \<noteq> genesis_hash \<longrightarrow>
      br_prev_text (block_row block) = take 16 h @ ''...'')
   \<and> length genesis_hash = 64 \<and> set genesis_hash = {CHR ''0''}
   \<and> (block \<in> set blockchainData \<longrightarrow>
        (\<exists>rows. updateBlockchainTable blockchainData = Rows rows
           \<and> block_row block \<in> set rows))"
proof -
  let ?sorted =
    "array_sort (\<lambda>a b. newest_first (ab_timestamp a) (ab_timestamp b)) blockchainData"
  have "block \<in> set blockchainData \<Longrightarrow>
     updateBlockchainTable blockchainData = Rows (map block_row ?sorted)"
    by (auto simp: updateBlockchainTable_def)
  moreover have "block \<in> set blockchainData \<Longrightarrow> block_row block \<in> set (map block_row ?sorted)"
    by (simp add: array_sort_set)
  ultimately have tab: "block \<in> set blockchainData \<longrightarrow>
        (\<exists>rows. updateBlockchainTable blockchainData = Rows rows \<and> block_row block \<in> set rows)"
    by blast
  have gen: "length genesis_hash = 64 \<and> set genesis_hash = {CHR ''0''}"
    by (simp add: genesis_hash_def)
  have cell: "(ab_previous_hash block = Some genesis_hash \<longrightarrow>
      br_prev_text (block_row block) = ''Genesis''
      \<and> br_prev_text (block_row block) \<noteq> genesis_hash)
   \<and> (ab_previous_hash block = Some h \<and> h \<noteq> [] \<and> h \<noteq> genesis_hash \<longrightarrow>
      br_prev_text (block_row block) = take 16 h @ ''...'')"
    by (simp add: block_row_def genesis_hash_def)
  from cell gen tab show ?thesis by blast
qed

theorem genesis_previous_hash_cell_witness:
  "ab_previous_hash block1 = Some genesis_hash
   \<and> br_prev_text (block_row block1) = ''Genesis''
   \<and> ab_previous_hash block2 = Some ''9f86d081884c7d659a2feaa0c55ad015a3bf4f1b''
   \<and> ''9f86d081884c7d659a2feaa0c55ad015a3bf4f1b'' \<noteq> genesis_hash
   \<and> br_prev_text (block_row block2) = ''9f86d081884c7d65...''
   \<and> block1 \<in> set [block2, block1, block3]
   \<and> block_row block1 \<in> set (map block_row [block2, block3, block1])"
proof -
  have h1: "ab_previous_hash block1 = Some genesis_hash"
    by (simp add: block1_def)
  have h2: "ab_previous_hash block2 = Some ''9f86d081884c7d659a2feaa0c55ad015a3bf4f1b''"
    by (simp add: block2_def)
  have h3: "''9f86d081884c7d659a2feaa0c55ad015a3bf4f1b'' \<noteq> genesis_hash"
    by (simp add: genesis_hash_def)
  from genesis_previous_hash_cell [of block1 "[]" "[block2, block1, block3]"]
       genesis_previous_hash_cell
         [of block2 "''9f86d081884c7d659a2feaa0c55ad015a3bf4f1b''" "[block2, block1, block3]"]
       h1 h2 h3
  show ?thesis by simp
qed

end
